theory Spec2Isabelle
  imports Complex_Main "HOL-Library.Multiset"
begin

section \<open>The JavaScript values the program computes with\<close>

text \<open>
  The program is TypeScript. Its data are modelled at their declared types: an optional
  property \<open>p?: T\<close> is a \<open>T option\<close> (\<open>None\<close> for \<open>undefined\<close> and \<open>null\<close>,
  which the operators \<open>??\<close> and \<open>?.\<close> treat alike), a \<open>string\<close> is a \<open>string\<close>.

  A \<open>number\<close> is modelled by a real: the numbers that reach the program are finite
  (the search form keeps only \<open>Number.isFinite\<close> values, listings come from JSON),
  and the only arithmetic done on them is one subtraction whose sign is read, which is
  the sign of the exact difference. The one place where \<open>NaN\<close> can arise,
  \<open>Number.parseInt\<close> in \<open>config.ts\<close>, has the type \<open>number_or_NaN\<close>.
\<close>

type_synonym number = real

datatype number_or_NaN = NaN | Finite number

subsection \<open>Strings\<close>

text \<open>
  A \<open>char\<close> is a code unit below 256, so a \<open>string\<close> is a JavaScript string of such
  code units. Among them the white space and line terminators of ECMAScript are tab,
  line feed, vertical tab, form feed, carriage return, space and the no-break space
  U+00A0.
\<close>

definition is_WhiteSpace :: "char \<Rightarrow> bool" where
  "is_WhiteSpace c \<longleftrightarrow>
     c = CHR '' '' \<or> c = CHR 0x09 \<or> c = CHR 0x0A \<or> c = CHR 0x0B \<or> c = CHR 0x0C \<or> c = CHR 0x0D
     \<or> c = CHR 0xA0"

text \<open>\<open>String.prototype.trim\<close>: white space and line terminators go from both ends.\<close>

definition trim :: "string \<Rightarrow> string" where
  "trim s = rev (dropWhile is_WhiteSpace (rev (dropWhile is_WhiteSpace s)))"

text \<open>\<open>Array.prototype.join\<close> of strings.\<close>

fun join :: "string \<Rightarrow> string list \<Rightarrow> string" where
  "join sep [] = []"
| "join sep [x] = x"
| "join sep (x # y # ys) = x @ sep @ join sep (y # ys)"

subsection \<open>Numbers as strings\<close>

text \<open>
  \<open>Number.prototype.toString\<close>: an integer below \<open>2^53\<close> in absolute value is a
  number exactly and is printed with all its decimal digits. Every other number is
  printed with its shortest round-trip digits (and an exponent from \<open>10^21\<close> on), a
  matter of the floating-point representation: that part is the parameter \<open>other\<close>.
\<close>

definition digit_char :: "nat \<Rightarrow> char" where
  "digit_char d = ''0123456789'' ! d"

fun decimal :: "nat \<Rightarrow> string" where
  "decimal n = (if n < 10 then [digit_char n] else decimal (n div 10) @ [digit_char (n mod 10)])"

declare decimal.simps [simp del]

definition number_toString :: "(number \<Rightarrow> string) \<Rightarrow> number \<Rightarrow> string" where
  "number_toString other x =
     (if of_int \<lfloor>x\<rfloor> = x \<and> \<bar>x\<bar> < 2 ^ 53
      then (if x < 0 then ''-'' @ decimal (nat (- \<lfloor>x\<rfloor>)) else decimal (nat \<lfloor>x\<rfloor>))
      else other x)"

fun ToString_number :: "(number \<Rightarrow> string) \<Rightarrow> number_or_NaN \<Rightarrow> string" where
  "ToString_number other NaN = ''NaN''"
| "ToString_number other (Finite x) = number_toString other x"

subsection \<open>Truthiness and the array of title parts\<close>

text \<open>
  The values \<open>normalizeListing\<close> puts in one array: a number, a string or
  \<open>undefined\<close>. \<open>ToBoolean\<close> is what \<open>filter(Boolean)\<close>, \<open>if (v)\<close> and \<open>||\<close>
  test: \<open>undefined\<close>, \<open>0\<close> and the empty string are falsy.
\<close>

datatype js_value = JSUndefined | JSNumber number | JSString string

fun ToBoolean :: "js_value \<Rightarrow> bool" where
  "ToBoolean JSUndefined = False"
| "ToBoolean (JSNumber x) = (x \<noteq> 0)"
| "ToBoolean (JSString s) = (s \<noteq> [])"

fun ToString :: "(number \<Rightarrow> string) \<Rightarrow> js_value \<Rightarrow> string" where
  "ToString other JSUndefined = []"
| "ToString other (JSNumber x) = number_toString other x"
| "ToString other (JSString s) = s"

fun of_number :: "number option \<Rightarrow> js_value" where
  "of_number None = JSUndefined"
| "of_number (Some x) = JSNumber x"

fun of_string :: "string option \<Rightarrow> js_value" where
  "of_string None = JSUndefined"
| "of_string (Some s) = JSString s"

text \<open>The operator \<open>a ?? b\<close> on optional values.\<close>

fun nullish :: "'a option \<Rightarrow> 'a option \<Rightarrow> 'a option" where
  "nullish (Some a) b = Some a"
| "nullish None b = b"

section \<open>The data model (types.ts, marketcheck.ts)\<close>

text \<open>
  Record fields are global names in Isabelle, so every field carries the initial of
  its type: \<open>l_\<close> for \<open>MarketcheckListing\<close>, \<open>b_\<close> for its \<open>build\<close>, \<open>d_\<close>
  for its \<open>dealer\<close>, \<open>v_\<close> for \<open>VehicleListing\<close>, \<open>c_\<close> for \<open>SearchCriteria\<close>, \<open>sc_\<close> for
  \<open>SortConfig\<close>, \<open>loc_\<close> for \<open>SelectedLocation\<close>, \<open>r_\<close> for \<open>Response\<close>.
\<close>

datatype SortOption = priceAsc | priceDesc | distance | mileageAsc

datatype SortDirection = asc | desc

record Media =
  photo_links :: "string list option"

record Dealer =
  d_name :: "string option"
  d_city :: "string option"
  d_state :: "string option"
  d_phone :: "string option"
  d_website :: "string option"

record Build =
  b_year :: "number option"
  b_make :: "string option"
  b_model :: "string option"
  b_trim :: "string option"
  b_body_type :: "string option"
  b_transmission :: "string option"
  b_drivetrain :: "string option"
  b_fuel_type :: "string option"

record MarketcheckListing =
  l_id :: "string option"
  l_vin :: "string option"
  l_heading :: "string option"
  l_price :: "number option"
  l_miles :: "number option"
  l_mileage :: "number option"
  l_dist :: "number option"
  l_distance :: "number option"
  l_exterior_color :: "string option"
  l_interior_color :: "string option"
  l_media :: "Media option"
  l_dealer :: "Dealer option"
  l_build :: "Build option"
  l_vdp_url :: "string option"
  l_ref_price :: "number option"
  l_scraped_listing_url :: "string option"
  l_website :: "string option"

record VehicleListing =
  v_id :: string
  v_title :: string
  v_price :: "number option"
  v_mileage :: "number option"
  v_distance :: "number option"
  v_exteriorColor :: "string option"
  v_interiorColor :: "string option"
  v_year :: "number option"
  v_make :: "string option"
  v_model :: "string option"
  v_trim :: "string option"
  v_bodyType :: "string option"
  v_transmission :: "string option"
  v_drivetrain :: "string option"
  v_fuelType :: "string option"
  v_dealerName :: "string option"
  v_dealerCity :: "string option"
  v_dealerState :: "string option"
  v_dealerPhone :: "string option"
  v_dealerWebsite :: "string option"
  v_listingUrl :: "string option"
  v_imageUrl :: "string option"

section \<open>Normalisation (marketcheck.ts, normalizeListing)\<close>

text \<open>The empty object \<open>{}\<close> that stands in for a missing \<open>build\<close> or \<open>dealer\<close>.\<close>

definition empty_Build :: Build where
  "empty_Build = \<lparr>b_year = None, b_make = None, b_model = None, b_trim = None,
     b_body_type = None, b_transmission = None, b_drivetrain = None, b_fuel_type = None\<rparr>"

definition empty_Dealer :: Dealer where
  "empty_Dealer = \<lparr>d_name = None, d_city = None, d_state = None, d_phone = None,
     d_website = None\<rparr>"

text \<open>\<open>listing.media?.photo_links?.[0]\<close>\<close>

fun first_photo :: "Media option \<Rightarrow> string option" where
  "first_photo None = None"
| "first_photo (Some m) =
     (case photo_links m of None \<Rightarrow> None | Some [] \<Rightarrow> None | Some (p # ps) \<Rightarrow> Some p)"

text \<open>
  \<open>normalizeListing\<close>. \<open>randomId\<close> is the token \<open>cryptoRandomId()\<close> returns when
  this call reaches it, \<open>Math.random().toString(36).slice(2)\<close>: the one input of the
  function that is not read from the listing.
\<close>

definition normalizeListing ::
    "(number \<Rightarrow> string) \<Rightarrow> string \<Rightarrow> MarketcheckListing \<Rightarrow> VehicleListing" where
  "normalizeListing other randomId listing =
    (let build = (case l_build listing of None \<Rightarrow> empty_Build | Some b \<Rightarrow> b);
         dealer = (case l_dealer listing of None \<Rightarrow> empty_Dealer | Some d \<Rightarrow> d);
         ident = (case l_id listing of Some i \<Rightarrow> i
                  | None \<Rightarrow> (case l_vin listing of Some v \<Rightarrow> v | None \<Rightarrow> randomId));
         computedTitle =
           (case l_heading listing of Some h \<Rightarrow> h
            | None \<Rightarrow>
                trim (join '' '' (map (ToString other) (filter ToBoolean
                  [of_number (b_year build), of_string (b_make build),
                   of_string (b_model build), of_string (b_trim build)]))))
     in \<lparr>v_id = ident,
         v_title = (if computedTitle \<noteq> [] then computedTitle else ''Used Vehicle''),
         v_price = nullish (l_price listing) (l_ref_price listing),
         v_mileage = nullish (l_miles listing) (l_mileage listing),
         v_distance = nullish (l_dist listing) (l_distance listing),
         v_exteriorColor = l_exterior_color listing,
         v_interiorColor = l_interior_color listing,
         v_year = b_year build,
         v_make = b_make build,
         v_model = b_model build,
         v_trim = b_trim build,
         v_bodyType = b_body_type build,
         v_transmission = b_transmission build,
         v_drivetrain = b_drivetrain build,
         v_fuelType = b_fuel_type build,
         v_dealerName = d_name dealer,
         v_dealerCity = d_city dealer,
         v_dealerState = d_state dealer,
         v_dealerPhone = d_phone dealer,
         v_dealerWebsite =
           nullish (d_website dealer) (nullish (l_website listing) (l_scraped_listing_url listing)),
         v_listingUrl =
           nullish (l_vdp_url listing) (nullish (l_scraped_listing_url listing) (d_website dealer)),
         v_imageUrl = first_photo (l_media listing)\<rparr>)"

section \<open>Sorting (marketcheck.ts, sortListings)\<close>

fun compareWithMissing :: "number option \<Rightarrow> number option \<Rightarrow> SortDirection \<Rightarrow> number" where
  "compareWithMissing None None direction = 0"
| "compareWithMissing None (Some bValue) direction = (if direction = asc then 1 else - 1)"
| "compareWithMissing (Some aValue) None direction = (if direction = asc then - 1 else 1)"
| "compareWithMissing (Some aValue) (Some bValue) direction =
     (if direction = asc then aValue - bValue else bValue - aValue)"

fun comparators :: "SortOption \<Rightarrow> VehicleListing \<Rightarrow> VehicleListing \<Rightarrow> number" where
  "comparators priceAsc a b = compareWithMissing (v_price a) (v_price b) asc"
| "comparators priceDesc a b = compareWithMissing (v_price a) (v_price b) desc"
| "comparators distance a b = compareWithMissing (v_distance a) (v_distance b) asc"
| "comparators mileageAsc a b = compareWithMissing (v_mileage a) (v_mileage b) asc"

text \<open>
  \<open>Array.prototype.sort(comparator)\<close> is a built-in: ECMAScript requires it to be
  stable, and \<open>comparator(a, b) \<le> 0\<close> keeps \<open>a\<close> before \<open>b\<close>. It is modelled by the
  stable insertion sort: an element goes before the first one it does not compare
  greater than, and the elements are inserted from the last to the first.
\<close>

fun insert_by :: "('a \<Rightarrow> 'a \<Rightarrow> number) \<Rightarrow> 'a \<Rightarrow> 'a list \<Rightarrow> 'a list" where
  "insert_by comparator x [] = [x]"
| "insert_by comparator x (y # ys) =
     (if comparator x y \<le> 0 then x # y # ys else y # insert_by comparator x ys)"

definition Array_sort :: "('a \<Rightarrow> 'a \<Rightarrow> number) \<Rightarrow> 'a list \<Rightarrow> 'a list" where
  "Array_sort comparator xs = foldr (insert_by comparator) xs []"

definition sortListings :: "VehicleListing list \<Rightarrow> SortOption \<Rightarrow> VehicleListing list" where
  "sortListings listings sortBy = Array_sort (comparators sortBy) listings"

section \<open>Configuration (env.d.ts, config.ts)\<close>

text \<open>
  \<open>Number.parseInt(s, 10)\<close>: leading white space is skipped, one sign is read, and the
  longest run of decimal digits that follows is the value; with no digit the result is
  \<open>NaN\<close>. (Past \<open>2^53\<close> the built-in rounds to the nearest number; the program
  only takes the minimum of the result and 50.)
\<close>

definition is_digit :: "char \<Rightarrow> bool" where
  "is_digit c \<longleftrightarrow> c \<in> set ''0123456789''"

definition digits_value :: "string \<Rightarrow> nat" where
  "digits_value ds = foldl (\<lambda>n c. 10 * n + (of_char c - 48)) 0 ds"

definition parseInt :: "string \<Rightarrow> number_or_NaN" where
  "parseInt s =
    (let S = dropWhile is_WhiteSpace s;
         negative = (case S of c # rest \<Rightarrow> c = CHR ''-'' | [] \<Rightarrow> False);
         S = (case S of
                c # rest \<Rightarrow> if c = CHR ''+'' \<or> c = CHR ''-'' then rest else S
              | [] \<Rightarrow> S);
         Z = takeWhile is_digit S
     in if Z = [] then NaN
        else Finite (if negative then - of_nat (digits_value Z) else of_nat (digits_value Z)))"

fun Math_min :: "number_or_NaN \<Rightarrow> number_or_NaN \<Rightarrow> number_or_NaN" where
  "Math_min (Finite a) (Finite b) = Finite (min a b)"
| "Math_min a b = NaN"

fun Math_max :: "number_or_NaN \<Rightarrow> number_or_NaN \<Rightarrow> number_or_NaN" where
  "Math_max (Finite a) (Finite b) = Finite (max a b)"
| "Math_max a b = NaN"

record ImportMetaEnv =
  VITE_GOOGLE_MAPS_API_KEY :: "string option"
  VITE_MARKETCHECK_API_KEY :: "string option"
  VITE_MARKETCHECK_BASE_URL :: "string option"
  VITE_RESULTS_PER_PAGE :: "string option"

record AppConfig =
  googleMapsApiKey :: "string option"
  marketcheckApiKey :: "string option"
  marketcheckBaseUrl :: string
  resultsPerPage :: number_or_NaN

definition DEFAULT_MARKETCHECK_BASE :: string where
  "DEFAULT_MARKETCHECK_BASE = ''https://api.marketcheck.com/v2''"

definition appConfig :: "ImportMetaEnv \<Rightarrow> AppConfig" where
  "appConfig env =
     \<lparr>googleMapsApiKey = VITE_GOOGLE_MAPS_API_KEY env,
      marketcheckApiKey = VITE_MARKETCHECK_API_KEY env,
      marketcheckBaseUrl =
        (case VITE_MARKETCHECK_BASE_URL env of None \<Rightarrow> DEFAULT_MARKETCHECK_BASE | Some u \<Rightarrow> u),
      resultsPerPage =
        parseInt (case VITE_RESULTS_PER_PAGE env of None \<Rightarrow> ''24'' | Some s \<Rightarrow> s)\<rparr>"

text \<open>What the program throws: an \<open>Error\<close> with its message, or a built-in exception.\<close>

datatype error = Error string | TypeError | SyntaxError

definition assertMarketcheckApiKey :: "AppConfig \<Rightarrow> error + string" where
  "assertMarketcheckApiKey config =
     (case marketcheckApiKey config of
        Some apiKey \<Rightarrow>
          if \<not> ToBoolean (JSString apiKey)
          then Inl (Error ''Missing VITE_MARKETCHECK_API_KEY. Add it to your .env file to enable vehicle search.'')
          else Inr apiKey
      | None \<Rightarrow>
          Inl (Error ''Missing VITE_MARKETCHECK_API_KEY. Add it to your .env file to enable vehicle search.''))"

section \<open>The search request (types.ts; marketcheck.ts, searchVehicles, lines 60 to 102)\<close>

record SelectedLocation =
  loc_description :: string
  loc_city :: string
  loc_state :: string
  loc_lat :: number
  loc_lng :: number

record SearchCriteria =
  c_location :: SelectedLocation
  c_radius :: number
  c_make :: "string option"
  c_model :: "string option"
  c_color :: "string option"
  c_minYear :: "number option"
  c_maxYear :: "number option"
  c_minMiles :: "number option"
  c_maxMiles :: "number option"
  c_minPrice :: "number option"
  c_maxPrice :: "number option"
  c_sortBy :: SortOption

record SortConfig =
  sc_sortBy :: string
  sc_sortOrder :: "string option"

fun SORT_MAPPING :: "SortOption \<Rightarrow> SortConfig" where
  "SORT_MAPPING priceAsc = \<lparr>sc_sortBy = ''price'', sc_sortOrder = Some ''asc''\<rparr>"
| "SORT_MAPPING priceDesc = \<lparr>sc_sortBy = ''price'', sc_sortOrder = Some ''desc''\<rparr>"
| "SORT_MAPPING distance = \<lparr>sc_sortBy = ''distance'', sc_sortOrder = Some ''asc''\<rparr>"
| "SORT_MAPPING mileageAsc = \<lparr>sc_sortBy = ''miles'', sc_sortOrder = Some ''asc''\<rparr>"

definition API_PATH :: string where
  "API_PATH = ''search/car/active''"

text \<open>
  \<open>URLSearchParams\<close>: the list of name and value pairs of the query, in order.
  \<open>set\<close> replaces the value of the first pair of that name and removes the others, or
  appends a new pair; \<open>get\<close> returns the value of the first pair of that name.
\<close>

type_synonym URLSearchParams = "(string \<times> string) list"

fun set_param :: "string \<Rightarrow> string \<Rightarrow> URLSearchParams \<Rightarrow> URLSearchParams" where
  "set_param name v [] = [(name, v)]"
| "set_param name v (p # ps) =
     (if fst p = name then (name, v) # filter (\<lambda>q. fst q \<noteq> name) ps
      else p # set_param name v ps)"

definition get_param :: "URLSearchParams \<Rightarrow> string \<Rightarrow> string option" where
  "get_param ps name = map_of ps name"

text \<open>The template literal \<open>`${min}-${max}`\<close> of a range, with the default of each bound.\<close>

definition range_value ::
    "(number \<Rightarrow> string) \<Rightarrow> number option \<Rightarrow> string \<Rightarrow> number option \<Rightarrow> string \<Rightarrow> string" where
  "range_value other lo lo_default hi hi_default =
     (case lo of None \<Rightarrow> lo_default | Some n \<Rightarrow> number_toString other n) @ ''-'' @
     (case hi of None \<Rightarrow> hi_default | Some n \<Rightarrow> number_toString other n)"

text \<open>
  The query parameters \<open>searchVehicles\<close> sets on the URL before it calls \<open>fetch\<close>.
  The URL is made of the base URL and the fixed path, so its query starts empty
  (a base URL with a query of its own is not modelled). \<open>SORT_MAPPING\<close> has an entry
  with a \<open>sortOrder\<close> for every \<open>SortOption\<close>, so the test \<open>if (sortConfig)\<close>
  always succeeds. A guarded statement \<open>if (c) searchParams.set(k, v)\<close> applies
  \<open>set_param k v\<close> or nothing (\<open>id\<close>) to the parameters.
\<close>

definition searchParams_of ::
    "(number \<Rightarrow> string) \<Rightarrow> string \<Rightarrow> AppConfig \<Rightarrow> SearchCriteria \<Rightarrow> URLSearchParams" where
  "searchParams_of other apiKey config criteria =
    (let searchParams = [];
         searchParams = set_param ''api_key'' apiKey searchParams;
         searchParams = set_param ''latitude''
           (number_toString other (loc_lat (c_location criteria))) searchParams;
         searchParams = set_param ''longitude''
           (number_toString other (loc_lng (c_location criteria))) searchParams;
         searchParams = set_param ''radius'' (number_toString other (c_radius criteria)) searchParams;
         searchParams = set_param ''car_type'' ''used'' searchParams;
         searchParams = set_param ''start'' ''0'' searchParams;
         searchParams = set_param ''rows''
           (ToString_number other (Math_max (Finite 1) (Math_min (resultsPerPage config) (Finite 50))))
           searchParams;
         searchParams = (case c_make criteria of
             Some make' \<Rightarrow> if ToBoolean (JSString make') then set_param ''make'' make' else id
           | None \<Rightarrow> id) searchParams;
         searchParams = (case c_model criteria of
             Some model' \<Rightarrow> if ToBoolean (JSString model') then set_param ''model'' model' else id
           | None \<Rightarrow> id) searchParams;
         searchParams = (case c_color criteria of
             Some color' \<Rightarrow>
               if ToBoolean (JSString color') then set_param ''exterior_color'' color' else id
           | None \<Rightarrow> id) searchParams;
         searchParams =
           (if ToBoolean (of_number (c_minYear criteria)) \<or> ToBoolean (of_number (c_maxYear criteria))
            then set_param ''year_range''
              (range_value other (c_minYear criteria) ''2000'' (c_maxYear criteria) ''2030'')
            else id) searchParams;
         searchParams =
           (if ToBoolean (of_number (c_minMiles criteria)) \<or> ToBoolean (of_number (c_maxMiles criteria))
            then set_param ''miles_range''
              (range_value other (c_minMiles criteria) ''0'' (c_maxMiles criteria) ''1000'')
            else id) searchParams;
         searchParams =
           (if ToBoolean (of_number (c_minPrice criteria)) \<or> ToBoolean (of_number (c_maxPrice criteria))
            then set_param ''price_range''
              (range_value other (c_minPrice criteria) ''0'' (c_maxPrice criteria) ''100000'')
            else id) searchParams;
         sortConfig = SORT_MAPPING (c_sortBy criteria);
         searchParams = set_param ''sort_by'' (sc_sortBy sortConfig) searchParams;
         searchParams = (case sc_sortOrder sortConfig of
             Some order \<Rightarrow> set_param ''sort_order'' order
           | None \<Rightarrow> id) searchParams
     in searchParams)"

text \<open>
  \<open>baseUrl.replace(/\/$/, '')\<close>: one trailing slash is removed. The request is the URL
  string and its query; the model takes the string to be one that \<open>new URL\<close> accepts,
  as the default base URL is.
\<close>

definition strip_trailing_slash :: "string \<Rightarrow> string" where
  "strip_trailing_slash s = (if s \<noteq> [] \<and> last s = CHR ''/'' then butlast s else s)"

record Request =
  req_url :: string
  req_searchParams :: URLSearchParams

definition searchVehicles_request ::
    "(number \<Rightarrow> string) \<Rightarrow> ImportMetaEnv \<Rightarrow> SearchCriteria \<Rightarrow> error + Request" where
  "searchVehicles_request other env criteria =
     (case assertMarketcheckApiKey (appConfig env) of
        Inl e \<Rightarrow> Inl e
      | Inr apiKey \<Rightarrow>
          Inr \<lparr>req_url = strip_trailing_slash (marketcheckBaseUrl (appConfig env)) @ ''/'' @ API_PATH,
               req_searchParams = searchParams_of other apiKey (appConfig env) criteria\<rparr>)"

text \<open>
  The search form (SearchForm.tsx, submitHandler) builds the criteria's optional
  strings with \<open>sanitizeText\<close>.
\<close>

definition sanitizeText :: "string option \<Rightarrow> string option" where
  "sanitizeText v =
     (case v of
        None \<Rightarrow> None
      | Some text \<Rightarrow>
          if \<not> ToBoolean (JSString text) then None
          else (let trimmed = trim text in if length trimmed > 0 then Some trimmed else None))"

section \<open>The search response (marketcheck.ts, searchVehicles, lines 104 to 115)\<close>

text \<open>
  A value parsed from JSON. An object is the list of its properties, each name once
  (\<open>JSON.parse\<close> keeps one value per name).
\<close>

datatype json =
  JNull | JBool bool | JNumber number | JString string | JArray "json list"
  | JObject "(string \<times> json) list"

text \<open>
  \<open>String(v)\<close> of a parsed value: an array prints its elements separated by commas,
  \<open>null\<close> elements as nothing; an object prints as \<open>[object Object]\<close>.
\<close>

fun String_of :: "(number \<Rightarrow> string) \<Rightarrow> json \<Rightarrow> string" where
  "String_of other JNull = ''null''"
| "String_of other (JBool b) = (if b then ''true'' else ''false'')"
| "String_of other (JNumber x) = number_toString other x"
| "String_of other (JString s) = s"
| "String_of other (JArray xs) =
     join '','' (map (\<lambda>x. if x = JNull then [] else String_of other x) xs)"
| "String_of other (JObject properties) = ''[object Object]''"

text \<open>
  Reading a property that no built-in prototype defines (\<open>message\<close>, \<open>listings\<close>):
  \<open>null\<close> has no properties and the access throws; an object has it or not; every
  other value has none.
\<close>

fun property :: "json \<Rightarrow> string \<Rightarrow> error + json option" where
  "property JNull name = Inl TypeError"
| "property (JObject properties) name = Inr (map_of properties name)"
| "property v name = Inr None"

fun isArray :: "json option \<Rightarrow> bool" where
  "isArray (Some (JArray xs)) = True"
| "isArray v = False"

text \<open>
  The \<open>Response\<close> of \<open>fetch\<close>, as far as the program reads it. \<open>r_json\<close> is the
  value \<open>response.json()\<close> resolves to, \<open>None\<close> when the body is not JSON and the
  promise rejects.
\<close>

record Response =
  r_ok :: bool
  r_statusText :: string
  r_json :: "json option"

definition safeParseError :: "(number \<Rightarrow> string) \<Rightarrow> Response \<Rightarrow> string option" where
  "safeParseError other response =
     (case r_json response of
        Some body \<Rightarrow>
          (case body of
             JObject properties \<Rightarrow>
               (case map_of properties ''message'' of
                  Some message \<Rightarrow> Some (String_of other message)
                | None \<Rightarrow> None)
           | _ \<Rightarrow> None)
      | None \<Rightarrow> (if r_statusText response \<noteq> [] then Some (r_statusText response) else None))"

text \<open>
  What \<open>searchVehicles\<close> takes from its host: the printing of the numbers that are not
  integers below \<open>2^53\<close>, \<open>fetch\<close>, the token \<open>cryptoRandomId()\<close> returns while the listing at a
  given index is normalised, and the reading of a parsed array element at the type
  \<open>MarketcheckListing\<close> (the assertion \<open>as MarketcheckSearchResponse\<close> checks nothing).
\<close>

record runtime =
  other_numbers :: "number \<Rightarrow> string"
  fetch :: "Request \<Rightarrow> error + Response"
  tokens :: "nat \<Rightarrow> string"
  asListing :: "json \<Rightarrow> MarketcheckListing"

text \<open>\<open>listings.map(normalizeListing)\<close>; on a \<open>null\<close> element \<open>listing.build\<close> throws.\<close>

fun normalize_from :: "runtime \<Rightarrow> nat \<Rightarrow> json list \<Rightarrow> error + VehicleListing list" where
  "normalize_from rt i [] = Inr []"
| "normalize_from rt i (x # xs) =
     (if x = JNull then Inl TypeError
      else (case normalize_from rt (Suc i) xs of
              Inl e \<Rightarrow> Inl e
            | Inr rest \<Rightarrow>
                Inr (normalizeListing (other_numbers rt) (tokens rt i) (asListing rt x) # rest)))"

definition searchVehicles_response ::
    "runtime \<Rightarrow> Response \<Rightarrow> SortOption \<Rightarrow> error + VehicleListing list" where
  "searchVehicles_response rt response sortBy =
     (if \<not> r_ok response then
        (case safeParseError (other_numbers rt) response of
           Some errorBody \<Rightarrow> Inl (Error errorBody)
         | None \<Rightarrow> Inl (Error ''Unable to fetch vehicles from Marketcheck.''))
      else
        (case r_json response of
           None \<Rightarrow> Inl SyntaxError
         | Some payload \<Rightarrow>
             (case property payload ''listings'' of
                Inl e \<Rightarrow> Inl e
              | Inr v \<Rightarrow>
                  (let listings = (case v of Some (JArray xs) \<Rightarrow> xs | _ \<Rightarrow> [])
                   in case normalize_from rt 0 listings of
                        Inl e \<Rightarrow> Inl e
                      | Inr normalized \<Rightarrow> Inr (sortListings normalized sortBy)))))"

definition searchVehicles ::
    "runtime \<Rightarrow> ImportMetaEnv \<Rightarrow> SearchCriteria \<Rightarrow> error + VehicleListing list" where
  "searchVehicles rt env criteria =
     (case searchVehicles_request (other_numbers rt) env criteria of
        Inl e \<Rightarrow> Inl e
      | Inr request \<Rightarrow>
          (case fetch rt request of
             Inl e \<Rightarrow> Inl e
           | Inr response \<Rightarrow> searchVehicles_response rt response (c_sortBy criteria)))"

section \<open>Example data\<close>

text \<open>
  The values the examples are evaluated at. The examples print integers only, so the
  printing of other numbers is a stand-in that is never reached.
\<close>

definition no_other_numbers :: "number \<Rightarrow> string" where
  "no_other_numbers x = []"

definition empty_listing :: MarketcheckListing where
  "empty_listing =
     \<lparr>l_id = None, l_vin = None, l_heading = None, l_price = None, l_miles = None,
      l_mileage = None, l_dist = None, l_distance = None, l_exterior_color = None,
      l_interior_color = None, l_media = None, l_dealer = None, l_build = None,
      l_vdp_url = None, l_ref_price = None, l_scraped_listing_url = None, l_website = None\<rparr>"

definition priced :: "string \<Rightarrow> number option \<Rightarrow> VehicleListing" where
  "priced i p =
     \<lparr>v_id = i, v_title = ''Used Vehicle'', v_price = p, v_mileage = None,
      v_distance = None, v_exteriorColor = None, v_interiorColor = None, v_year = None,
      v_make = None, v_model = None, v_trim = None, v_bodyType = None, v_transmission = None,
      v_drivetrain = None, v_fuelType = None, v_dealerName = None, v_dealerCity = None,
      v_dealerState = None, v_dealerPhone = None, v_dealerWebsite = None, v_listingUrl = None,
      v_imageUrl = None\<rparr>"

definition example_criteria :: SearchCriteria where
  "example_criteria =
     \<lparr>c_location = \<lparr>loc_description = ''Austin, TX, USA'', loc_city = ''Austin'',
        loc_state = ''TX'', loc_lat = 30, loc_lng = - 97\<rparr>,
      c_radius = 25, c_make = None, c_model = None, c_color = None, c_minYear = None,
      c_maxYear = None, c_minMiles = None, c_maxMiles = None, c_minPrice = None,
      c_maxPrice = None, c_sortBy = priceAsc\<rparr>"

definition example_env :: ImportMetaEnv where
  "example_env =
     \<lparr>VITE_GOOGLE_MAPS_API_KEY = None, VITE_MARKETCHECK_API_KEY = Some ''key'',
      VITE_MARKETCHECK_BASE_URL = None, VITE_RESULTS_PER_PAGE = None\<rparr>"

text \<open>A host whose \<open>fetch\<close> answers every request with the given response.\<close>

definition answering :: "Response \<Rightarrow> runtime" where
  "answering response =
     \<lparr>other_numbers = no_other_numbers, fetch = (\<lambda>request. Inr response),
      tokens = (\<lambda>i. ''token''), asListing = (\<lambda>x. empty_listing)\<rparr>"

section \<open>Auxiliary facts\<close>

subsection \<open>Query parameters\<close>

lemma map_of_filter_other:
  "k \<noteq> n \<Longrightarrow> map_of (filter (\<lambda>q. fst q \<noteq> n) ps) k = map_of ps k"
  by (induction ps) auto

lemma get_param_set_param:
  "get_param (set_param n v ps) k = (if k = n then Some v else get_param ps k)"
  unfolding get_param_def
  by (induction ps) (auto simp: map_of_filter_other)

lemma get_param_Nil: "get_param [] k = None"
  by (simp add: get_param_def)

lemma get_param_Cons:
  "get_param (p # ps) k = (if fst p = k then Some (snd p) else get_param ps k)"
  by (cases p) (simp add: get_param_def)

lemma get_param_guarded:
  "get_param ((if c then set_param n v else id) ps) k =
     (if k = n then (if c then Some v else get_param ps k) else get_param ps k)"
  by (simp add: get_param_set_param)

lemma get_param_truthy:
  "get_param ((case x of Some y \<Rightarrow> if P y then set_param n y else id | None \<Rightarrow> id) ps) k =
     (if k = n
      then (case x of Some y \<Rightarrow> if P y then Some y else get_param ps k | None \<Rightarrow> get_param ps k)
      else get_param ps k)"
  by (cases x) (simp_all add: get_param_set_param)

lemma get_param_optional:
  "get_param ((case x of Some y \<Rightarrow> set_param n y | None \<Rightarrow> id) ps) k =
     (if k = n then (case x of Some y \<Rightarrow> Some y | None \<Rightarrow> get_param ps k)
      else get_param ps k)"
  by (cases x) (simp_all add: get_param_set_param)

lemmas searchParams_simps =
  searchParams_of_def Let_def get_param_set_param get_param_Nil get_param_Cons
  get_param_guarded get_param_truthy get_param_optional

lemmas decimal_simps = number_toString_def decimal.simps digit_char_def

text \<open>The parameters every query carries.\<close>

lemma searchParams_always_set:
  "get_param (searchParams_of other apiKey config criteria) ''api_key'' = Some apiKey"
  "get_param (searchParams_of other apiKey config criteria) ''latitude'' =
     Some (number_toString other (loc_lat (c_location criteria)))"
  "get_param (searchParams_of other apiKey config criteria) ''longitude'' =
     Some (number_toString other (loc_lng (c_location criteria)))"
  "get_param (searchParams_of other apiKey config criteria) ''radius'' =
     Some (number_toString other (c_radius criteria))"
  "get_param (searchParams_of other apiKey config criteria) ''car_type'' = Some ''used''"
  "get_param (searchParams_of other apiKey config criteria) ''start'' = Some ''0''"
  by (simp_all add: searchParams_simps)

lemma searchParams_rows:
  "get_param (searchParams_of other apiKey config criteria) ''rows'' =
     Some (ToString_number other (Math_max (Finite 1) (Math_min (resultsPerPage config) (Finite 50))))"
  by (simp add: searchParams_simps)

text \<open>A page size that is a number is clamped to \<open>[1, 50]\<close>; none configured gives 24.\<close>

lemma searchParams_rows_Finite:
  "resultsPerPage config = Finite n \<Longrightarrow>
   get_param (searchParams_of other apiKey config criteria) ''rows'' =
     Some (number_toString other (max 1 (min n 50)))"
  by (simp add: searchParams_rows)

lemma parseInt_examples:
  "parseInt ''24'' = Finite 24" "parseInt ''100'' = Finite 100" "parseInt ''0'' = Finite 0"
  "parseInt ''abc'' = NaN" "parseInt [] = NaN" "parseInt (CHR 0xA0 # ''24'') = Finite 24"
  by (simp_all add: parseInt_def is_WhiteSpace_def is_digit_def digits_value_def)

lemma searchParams_rows_default:
  "get_param (searchParams_of other apiKey (appConfig (env\<lparr>VITE_RESULTS_PER_PAGE := None\<rparr>))
     criteria) ''rows'' = Some ''24''"
  by (simp add: searchParams_rows appConfig_def parseInt_examples decimal_simps)

lemma searchParams_rows_capped:
  "get_param (searchParams_of other apiKey (appConfig (env\<lparr>VITE_RESULTS_PER_PAGE := Some ''100''\<rparr>))
     criteria) ''rows'' = Some ''50''"
  by (simp add: searchParams_rows appConfig_def parseInt_examples decimal_simps)

text \<open>The three range parameters, and the three optional filters.\<close>

lemma searchParams_year_range:
  "get_param (searchParams_of other apiKey config criteria) ''year_range'' =
     (if ToBoolean (of_number (c_minYear criteria)) \<or> ToBoolean (of_number (c_maxYear criteria))
      then Some (range_value other (c_minYear criteria) ''2000'' (c_maxYear criteria) ''2030'')
      else None)"
  by (simp add: searchParams_simps)

lemma searchParams_miles_range:
  "get_param (searchParams_of other apiKey config criteria) ''miles_range'' =
     (if ToBoolean (of_number (c_minMiles criteria)) \<or> ToBoolean (of_number (c_maxMiles criteria))
      then Some (range_value other (c_minMiles criteria) ''0'' (c_maxMiles criteria) ''1000'')
      else None)"
  by (simp add: searchParams_simps)

lemma searchParams_price_range:
  "get_param (searchParams_of other apiKey config criteria) ''price_range'' =
     (if ToBoolean (of_number (c_minPrice criteria)) \<or> ToBoolean (of_number (c_maxPrice criteria))
      then Some (range_value other (c_minPrice criteria) ''0'' (c_maxPrice criteria) ''100000'')
      else None)"
  by (simp add: searchParams_simps)

lemma searchParams_miles_range_example:
  "get_param (searchParams_of other apiKey config
     (criteria\<lparr>c_minMiles := Some 20000, c_maxMiles := None\<rparr>)) ''miles_range'' =
     Some ''20000-1000''"
  by (simp add: searchParams_miles_range range_value_def decimal_simps)

lemma searchParams_make:
  "get_param (searchParams_of other apiKey config criteria) ''make'' =
     (case c_make criteria of Some s \<Rightarrow> if s = [] then None else Some s | None \<Rightarrow> None)"
  by (simp add: searchParams_simps split: option.split)

lemma searchParams_model:
  "get_param (searchParams_of other apiKey config criteria) ''model'' =
     (case c_model criteria of Some s \<Rightarrow> if s = [] then None else Some s | None \<Rightarrow> None)"
  by (simp add: searchParams_simps split: option.split)

lemma searchParams_exterior_color:
  "get_param (searchParams_of other apiKey config criteria) ''exterior_color'' =
     (case c_color criteria of Some s \<Rightarrow> if s = [] then None else Some s | None \<Rightarrow> None)"
  by (simp add: searchParams_simps split: option.split)

lemma sanitizeText_eq:
  "sanitizeText v = (case v of Some t \<Rightarrow> if trim t = [] then None else Some (trim t) | None \<Rightarrow> None)"
  by (simp add: sanitizeText_def trim_def split: option.split)

lemma searchVehicles_request_Inr:
  assumes "searchVehicles_request other env criteria = Inr request"
  shows "\<exists>apiKey. VITE_MARKETCHECK_API_KEY env = Some apiKey \<and> apiKey \<noteq> []
    \<and> req_searchParams request = searchParams_of other apiKey (appConfig env) criteria"
  using assms
  by (auto simp add: searchVehicles_request_def assertMarketcheckApiKey_def appConfig_def
      split: option.splits if_splits)

lemma searchVehicles_request_no_key:
  "VITE_MARKETCHECK_API_KEY env = None \<or> VITE_MARKETCHECK_API_KEY env = Some [] \<Longrightarrow>
   searchVehicles rt env criteria =
     Inl (Error ''Missing VITE_MARKETCHECK_API_KEY. Add it to your .env file to enable vehicle search.'')"
  by (auto simp add: searchVehicles_def searchVehicles_request_def assertMarketcheckApiKey_def
      appConfig_def)

lemma searchVehicles_request_example:
  "searchVehicles_request other example_env criteria =
     Inr \<lparr>req_url = ''https://api.marketcheck.com/v2/search/car/active'',
          req_searchParams = searchParams_of other ''key'' (appConfig example_env) criteria\<rparr>"
  by (simp add: searchVehicles_request_def assertMarketcheckApiKey_def appConfig_def
      example_env_def strip_trailing_slash_def DEFAULT_MARKETCHECK_BASE_def API_PATH_def)

subsection \<open>Normalisation\<close>

lemma v_title_normalizeListing:
  "v_title (normalizeListing other r listing) =
     (let build = (case l_build listing of None \<Rightarrow> empty_Build | Some b \<Rightarrow> b);
          computedTitle =
           (case l_heading listing of Some h \<Rightarrow> h
            | None \<Rightarrow>
                trim (join '' '' (map (ToString other) (filter ToBoolean
                  [of_number (b_year build), of_string (b_make build),
                   of_string (b_model build), of_string (b_trim build)]))))
      in if computedTitle \<noteq> [] then computedTitle else ''Used Vehicle'')"
  by (simp add: normalizeListing_def Let_def)

lemma v_id_normalizeListing:
  "v_id (normalizeListing other r listing) =
     (case l_id listing of Some i \<Rightarrow> i
      | None \<Rightarrow> (case l_vin listing of Some v \<Rightarrow> v | None \<Rightarrow> r))"
  by (simp add: normalizeListing_def Let_def)

lemma truthy_number_part:
  "map (ToString other) (filter ToBoolean (of_number y # xs)) =
     (case y of Some n \<Rightarrow> if n = 0 then [] else [number_toString other n] | None \<Rightarrow> []) @
     map (ToString other) (filter ToBoolean xs)"
  by (cases y) simp_all

lemma truthy_string_part:
  "map (ToString other) (filter ToBoolean (of_string s # xs)) =
     (case s of Some t \<Rightarrow> if t = [] then [] else [t] | None \<Rightarrow> []) @
     map (ToString other) (filter ToBoolean xs)"
  by (cases s) simp_all

lemma title_of_normalizeListing:
  "v_title (normalizeListing other r listing) =
    (case l_heading listing of
       Some h \<Rightarrow> if h = [] then ''Used Vehicle'' else h
     | None \<Rightarrow>
        (let build = (case l_build listing of None \<Rightarrow> empty_Build | Some b \<Rightarrow> b);
             composed = trim (join '' ''
               ((case b_year build of
                   Some y \<Rightarrow> if y = 0 then [] else [number_toString other y] | None \<Rightarrow> []) @
                (case b_make build of Some s \<Rightarrow> if s = [] then [] else [s] | None \<Rightarrow> []) @
                (case b_model build of Some s \<Rightarrow> if s = [] then [] else [s] | None \<Rightarrow> []) @
                (case b_trim build of Some s \<Rightarrow> if s = [] then [] else [s] | None \<Rightarrow> [])))
         in if composed = [] then ''Used Vehicle'' else composed))"
proof (cases "l_heading listing")
  case None
  then show ?thesis
    by (simp add: v_title_normalizeListing Let_def truthy_number_part truthy_string_part
        del: filter.simps(2) list.map(2))
next
  case (Some h)
  then show ?thesis
    by (simp add: v_title_normalizeListing Let_def)
qed

text \<open>
  The trimming of the composed title takes the no-break space too, and an integer from
  \<open>2^53\<close> on is printed by the host.
\<close>

lemma title_no_break_space:
  "v_title (normalizeListing other r (listing\<lparr>l_heading := None,
     l_build := Some (empty_Build\<lparr>b_make := Some [CHR 0xA0]\<rparr>)\<rparr>)) = ''Used Vehicle''"
  by (simp add: title_of_normalizeListing Let_def empty_Build_def trim_def is_WhiteSpace_def)

lemma number_toString_safe_integer:
  "number_toString other 9007199254740991 = ''9007199254740991''"
  by (simp add: decimal_simps)

lemma number_toString_large: "number_toString other (2 ^ 69) = other (2 ^ 69)"
  by (simp add: number_toString_def)

subsection \<open>Sorting\<close>

lemma compareWithMissing_total:
  "0 < compareWithMissing a b d \<Longrightarrow> compareWithMissing b a d \<le> 0"
  by (cases a; cases b; cases d) auto

lemma compareWithMissing_trans:
  "compareWithMissing a b d \<le> 0 \<Longrightarrow> compareWithMissing b c d \<le> 0 \<Longrightarrow>
   compareWithMissing a c d \<le> 0"
  by (cases a; cases b; cases c; cases d) auto

lemma comparators_total: "0 < comparators s a b \<Longrightarrow> comparators s b a \<le> 0"
  by (cases s) (auto dest: compareWithMissing_total)

lemma comparators_trans:
  "comparators s a b \<le> 0 \<Longrightarrow> comparators s b c \<le> 0 \<Longrightarrow> comparators s a c \<le> 0"
  by (cases s) (auto elim: compareWithMissing_trans)

lemma set_insert_by: "set (insert_by cmp x xs) = insert x (set xs)"
  by (induction xs) auto

lemma mset_insert_by: "mset (insert_by cmp x xs) = add_mset x (mset xs)"
  by (induction xs) auto

lemma sorted_insert_by:
  assumes total: "\<And>a b. 0 < cmp a b \<Longrightarrow> cmp b a \<le> 0"
    and trans: "\<And>a b c. cmp a b \<le> 0 \<Longrightarrow> cmp b c \<le> 0 \<Longrightarrow> cmp a c \<le> 0"
    and sorted: "sorted_wrt (\<lambda>a b. cmp a b \<le> 0) xs"
  shows "sorted_wrt (\<lambda>a b. cmp a b \<le> 0) (insert_by cmp x xs)"
  using sorted
proof (induction xs)
  case Nil
  then show ?case by simp
next
  case (Cons y ys)
  show ?case
  proof (cases "cmp x y \<le> 0")
    case True
    then have "\<forall>z\<in>set ys. cmp x z \<le> 0"
      using Cons.prems trans by auto
    with True Cons.prems show ?thesis by simp
  next
    case False
    then have "cmp y x \<le> 0"
      using total [of x y] by simp
    with False Cons show ?thesis
      by (auto simp: set_insert_by)
  qed
qed

lemma sorted_Array_sort:
  assumes total: "\<And>a b. 0 < cmp a b \<Longrightarrow> cmp b a \<le> 0"
    and trans: "\<And>a b c. cmp a b \<le> 0 \<Longrightarrow> cmp b c \<le> 0 \<Longrightarrow> cmp a c \<le> 0"
  shows "sorted_wrt (\<lambda>a b. cmp a b \<le> 0) (Array_sort cmp xs)"
  unfolding Array_sort_def
  by (induction xs) (auto intro: sorted_insert_by total trans)

lemma mset_Array_sort: "mset (Array_sort cmp xs) = mset xs"
  unfolding Array_sort_def
  by (induction xs) (auto simp: mset_insert_by)

lemma sorted_sortListings:
  "sorted_wrt (\<lambda>a b. comparators s a b \<le> 0) (sortListings ls s)"
  unfolding sortListings_def
  by (rule sorted_Array_sort) (auto dest: comparators_total elim: comparators_trans)

lemma compareWithMissing_asc_order:
  "compareWithMissing x y asc \<le> 0 \<Longrightarrow>
   (case (x, y) of (Some p, Some q) \<Rightarrow> p \<le> q | (None, Some q) \<Rightarrow> False | _ \<Rightarrow> True)"
  by (cases x; cases y) auto

lemma compareWithMissing_desc_order:
  "compareWithMissing x y desc \<le> 0 \<Longrightarrow>
   (case (x, y) of (Some p, Some q) \<Rightarrow> q \<le> p | (Some p, None) \<Rightarrow> False | _ \<Rightarrow> True)"
  by (cases x; cases y) auto

subsection \<open>Responses without listings\<close>

text \<open>
  When the response is \<open>ok\<close>, its body parses, and reading \<open>listings\<close> from the parsed
  body gives nothing or a value that is not an array, \<open>searchVehicles\<close> returns the empty
  list. Two such bodies: an object without \<open>listings\<close>, and one whose \<open>listings\<close> is a
  string.
\<close>

lemma searchVehicles_without_listings:
  assumes "searchVehicles_request (other_numbers rt) env criteria = Inr request"
    and "fetch rt request = Inr response"
    and "r_ok response"
    and "r_json response = Some payload"
    and "property payload ''listings'' = Inr v"
    and "\<not> isArray v"
  shows "searchVehicles rt env criteria = Inr []"
proof -
  have "(case v of Some (JArray xs) \<Rightarrow> xs | _ \<Rightarrow> []) = []"
    using assms(6) by (cases v rule: isArray.cases) simp_all
  with assms show ?thesis
    by (simp add: searchVehicles_def searchVehicles_response_def sortListings_def Array_sort_def)
qed

lemma searchVehicles_without_listings_examples:
  "searchVehicles
     (answering \<lparr>r_ok = True, r_statusText = ''OK'', r_json = Some (JObject [(''num_found'', JNumber 0)])\<rparr>)
     example_env example_criteria = Inr []
   \<and> searchVehicles
     (answering \<lparr>r_ok = True, r_statusText = ''OK'',
        r_json = Some (JObject [(''listings'', JString ''none'')])\<rparr>)
     example_env example_criteria = Inr []"
proof -
  have request: "searchVehicles_request (other_numbers (answering response)) example_env
      example_criteria =
     Inr \<lparr>req_url = ''https://api.marketcheck.com/v2/search/car/active'',
          req_searchParams = searchParams_of (other_numbers (answering response)) ''key''
            (appConfig example_env) example_criteria\<rparr>" for response
    by (rule searchVehicles_request_example)
  have fetched: "fetch (answering response) request = Inr response" for response request
    by (simp add: answering_def)
  show ?thesis
    using
      searchVehicles_without_listings [OF request fetched,
        of "\<lparr>r_ok = True, r_statusText = ''OK'', r_json = Some (JObject [(''num_found'', JNumber 0)])\<rparr>"
           "JObject [(''num_found'', JNumber 0)]" None]
      searchVehicles_without_listings [OF request fetched,
        of "\<lparr>r_ok = True, r_statusText = ''OK'',
              r_json = Some (JObject [(''listings'', JString ''none'')])\<rparr>"
           "JObject [(''listings'', JString ''none'')]" "Some (JString ''none'')"]
    by simp
qed

section \<open>The claims\<close>

subsection \<open>C1: the order of the sorted listings\<close>

text \<open>
  Claim C1, as the code has it. \<open>sortListings\<close> returns a permutation of the listings
  that is ordered by the comparator of the sort option. Two listings that both miss the
  field compare equal, and two present values compare numerically in the direction of the
  option. Under the ascending options (\<open>priceAsc\<close>, \<open>distance\<close>, \<open>mileageAsc\<close>) a
  listing that misses the field comes after every listing that has it. Under
  \<open>priceDesc\<close> the comparator reverses that case with the direction, so a listing
  without a price comes before every listing that has one. Prices 30000, missing, 10000
  sorted by \<open>priceAsc\<close> come out as 10000, 30000, missing.
\<close>

theorem sortListings_missing_policy:
  "compareWithMissing None None direction = 0
   \<and> 0 < compareWithMissing None (Some b) asc
   \<and> compareWithMissing (Some a) None asc < 0
   \<and> compareWithMissing None (Some b) desc < 0
   \<and> 0 < compareWithMissing (Some a) None desc
   \<and> (compareWithMissing (Some a) (Some b) asc \<le> 0) = (a \<le> b)
   \<and> (compareWithMissing (Some a) (Some b) desc \<le> 0) = (b \<le> a)
   \<and> mset (sortListings listings sortBy) = mset listings
   \<and> sorted_wrt (\<lambda>x y. comparators sortBy x y \<le> 0) (sortListings listings sortBy)
   \<and> sorted_wrt
        (\<lambda>x y. case (v_price x, v_price y) of
                  (Some p, Some q) \<Rightarrow> p \<le> q | (None, Some q) \<Rightarrow> False | _ \<Rightarrow> True)
        (sortListings listings priceAsc)
   \<and> sorted_wrt
        (\<lambda>x y. case (v_distance x, v_distance y) of
                  (Some p, Some q) \<Rightarrow> p \<le> q | (None, Some q) \<Rightarrow> False | _ \<Rightarrow> True)
        (sortListings listings distance)
   \<and> sorted_wrt
        (\<lambda>x y. case (v_mileage x, v_mileage y) of
                  (Some p, Some q) \<Rightarrow> p \<le> q | (None, Some q) \<Rightarrow> False | _ \<Rightarrow> True)
        (sortListings listings mileageAsc)
   \<and> sorted_wrt
        (\<lambda>x y. case (v_price x, v_price y) of
                  (Some p, Some q) \<Rightarrow> q \<le> p | (Some p, None) \<Rightarrow> False | _ \<Rightarrow> True)
        (sortListings listings priceDesc)
   \<and> map v_price (sortListings
         [priced ''a'' (Some 30000), priced ''b'' None, priced ''c'' (Some 10000)] priceAsc) =
       [Some 10000, Some 30000, None]"
proof -
  have price_asc: "sorted_wrt
        (\<lambda>x y. case (v_price x, v_price y) of
                  (Some p, Some q) \<Rightarrow> p \<le> q | (None, Some q) \<Rightarrow> False | _ \<Rightarrow> True)
        (sortListings listings priceAsc)"
    by (rule sorted_wrt_mono_rel [OF _ sorted_sortListings])
      (auto dest!: compareWithMissing_asc_order)
  have distance_asc: "sorted_wrt
        (\<lambda>x y. case (v_distance x, v_distance y) of
                  (Some p, Some q) \<Rightarrow> p \<le> q | (None, Some q) \<Rightarrow> False | _ \<Rightarrow> True)
        (sortListings listings distance)"
    by (rule sorted_wrt_mono_rel [OF _ sorted_sortListings])
      (auto dest!: compareWithMissing_asc_order)
  have mileage_asc: "sorted_wrt
        (\<lambda>x y. case (v_mileage x, v_mileage y) of
                  (Some p, Some q) \<Rightarrow> p \<le> q | (None, Some q) \<Rightarrow> False | _ \<Rightarrow> True)
        (sortListings listings mileageAsc)"
    by (rule sorted_wrt_mono_rel [OF _ sorted_sortListings])
      (auto dest!: compareWithMissing_asc_order)
  have price_desc: "sorted_wrt
        (\<lambda>x y. case (v_price x, v_price y) of
                  (Some p, Some q) \<Rightarrow> q \<le> p | (Some p, None) \<Rightarrow> False | _ \<Rightarrow> True)
        (sortListings listings priceDesc)"
    by (rule sorted_wrt_mono_rel [OF _ sorted_sortListings])
      (auto dest!: compareWithMissing_desc_order)
  have example: "map v_price (sortListings
         [priced ''a'' (Some 30000), priced ''b'' None, priced ''c'' (Some 10000)] priceAsc) =
       [Some 10000, Some 30000, None]"
    by (simp add: sortListings_def Array_sort_def priced_def)
  have perm: "mset (sortListings listings sortBy) = mset listings"
    by (simp add: sortListings_def mset_Array_sort)
  have cmp: "compareWithMissing None None direction = 0
   \<and> 0 < compareWithMissing None (Some b) asc
   \<and> compareWithMissing (Some a) None asc < 0
   \<and> compareWithMissing None (Some b) desc < 0
   \<and> 0 < compareWithMissing (Some a) None desc
   \<and> (compareWithMissing (Some a) (Some b) asc \<le> 0) = (a \<le> b)
   \<and> (compareWithMissing (Some a) (Some b) desc \<le> 0) = (b \<le> a)"
    by simp
  from cmp perm sorted_sortListings [of sortBy listings] price_asc distance_asc mileage_asc
    price_desc example
  show ?thesis by blast
qed

text \<open>
  Claim C1 as stated (missing last whatever the direction) fails for \<open>priceDesc\<close>: the
  listing without a price is first.
\<close>

theorem sortListings_priceDesc_missing_first:
  "map v_price (sortListings
     [priced ''a'' (Some 30000), priced ''b'' None, priced ''c'' (Some 10000)] priceDesc) =
   [None, Some 30000, Some 10000]"
  by (simp add: sortListings_def Array_sort_def priced_def)

subsection \<open>C2: the range parameters\<close>

text \<open>
  Claim C2 says that a range parameter is in the query as soon as one of its bounds is
  supplied. The guard tests the bounds for truthiness, and \<open>0\<close> is falsy: with a minimum
  mileage of 0 and no maximum the query has no \<open>miles_range\<close>, and with both price
  bounds 0 it has no \<open>price_range\<close>. The lemmas \<open>searchParams_miles_range\<close> and
  \<open>searchParams_miles_range_example\<close> above give the rule for the other values, with the
  defaults and the value \<open>20000-1000\<close> of the claim.
\<close>

theorem searchParams_range_zero_bound:
  "get_param (searchParams_of other apiKey config
     (criteria\<lparr>c_minMiles := Some 0, c_maxMiles := None\<rparr>)) ''miles_range'' = None
   \<and> get_param (searchParams_of other apiKey config
     (criteria\<lparr>c_minPrice := Some 0, c_maxPrice := Some 0\<rparr>)) ''price_range'' = None"
  by (simp add: searchParams_miles_range searchParams_price_range)

subsection \<open>C3: the title\<close>

text \<open>
  Claim C3, as the code has it. A heading that is present is the title as it is, without
  trimming, unless it is the empty string, which gives \<open>Used Vehicle\<close>. Only when the
  heading is absent is the title composed: the truthy ones of year (not 0), make, model
  and trim (not empty) are joined by spaces and trimmed, and an empty result gives
  \<open>Used Vehicle\<close>. No heading and the build 2020, Honda, Civic give
  \<open>2020 Honda Civic\<close>; no heading and no build give \<open>Used Vehicle\<close>.
\<close>

theorem normalizeListing_title:
  "v_title (normalizeListing other randomId listing) =
    (case l_heading listing of
       Some h \<Rightarrow> if h = [] then ''Used Vehicle'' else h
     | None \<Rightarrow>
        (let build = (case l_build listing of None \<Rightarrow> empty_Build | Some b \<Rightarrow> b);
             composed = trim (join '' ''
               ((case b_year build of
                   Some y \<Rightarrow> if y = 0 then [] else [number_toString other y] | None \<Rightarrow> []) @
                (case b_make build of Some s \<Rightarrow> if s = [] then [] else [s] | None \<Rightarrow> []) @
                (case b_model build of Some s \<Rightarrow> if s = [] then [] else [s] | None \<Rightarrow> []) @
                (case b_trim build of Some s \<Rightarrow> if s = [] then [] else [s] | None \<Rightarrow> [])))
         in if composed = [] then ''Used Vehicle'' else composed))
   \<and> v_title (normalizeListing other randomId (listing\<lparr>l_heading := None,
         l_build := Some (empty_Build\<lparr>b_year := Some 2020, b_make := Some ''Honda'',
           b_model := Some ''Civic''\<rparr>)\<rparr>)) = ''2020 Honda Civic''
   \<and> v_title (normalizeListing other randomId (listing\<lparr>l_heading := None, l_build := None\<rparr>)) =
       ''Used Vehicle''"
proof -
  have "v_title (normalizeListing other randomId (listing\<lparr>l_heading := None,
         l_build := Some (empty_Build\<lparr>b_year := Some 2020, b_make := Some ''Honda'',
           b_model := Some ''Civic''\<rparr>)\<rparr>)) = ''2020 Honda Civic''"
    by (simp add: title_of_normalizeListing Let_def empty_Build_def trim_def is_WhiteSpace_def
        decimal_simps)
  moreover have "v_title (normalizeListing other randomId
      (listing\<lparr>l_heading := None, l_build := None\<rparr>)) = ''Used Vehicle''"
    by (simp add: title_of_normalizeListing Let_def empty_Build_def trim_def)
  ultimately show ?thesis
    using title_of_normalizeListing [of other randomId listing] by blast
qed

text \<open>
  Claim C3 as stated (the heading counts only when it is non-empty after trimming, and
  the composed title comes next) fails: a heading of two spaces is the title, and an empty
  heading gives \<open>Used Vehicle\<close> although the build has a year and a make.
\<close>

theorem normalizeListing_title_heading_untrimmed:
  "trim ''  '' = []
   \<and> v_title (normalizeListing no_other_numbers ''token''
        (empty_listing\<lparr>l_heading := Some ''  ''\<rparr>)) = ''  ''
   \<and> v_title (normalizeListing no_other_numbers ''token''
        (empty_listing\<lparr>l_heading := Some [],
           l_build := Some (empty_Build\<lparr>b_year := Some 2020, b_make := Some ''Honda''\<rparr>)\<rparr>)) =
       ''Used Vehicle''"
  by (simp add: title_of_normalizeListing empty_listing_def trim_def is_WhiteSpace_def)

subsection \<open>C4: the error message\<close>




subsection \<open>C5: the remote sort pair\<close>

text \<open>
  Claim C5. For each of the four sort options the query carries the pair of the table:
  \<open>priceAsc\<close> gives (price, asc), \<open>priceDesc\<close> (price, desc), \<open>distance\<close>
  (distance, asc) and \<open>mileageAsc\<close> (miles, asc).
\<close>

theorem searchParams_sort_mapping:
  "get_param (searchParams_of other apiKey config (criteria\<lparr>c_sortBy := priceAsc\<rparr>)) ''sort_by'' =
     Some ''price''
   \<and> get_param (searchParams_of other apiKey config (criteria\<lparr>c_sortBy := priceAsc\<rparr>)) ''sort_order'' =
     Some ''asc''
   \<and> get_param (searchParams_of other apiKey config (criteria\<lparr>c_sortBy := priceDesc\<rparr>)) ''sort_by'' =
     Some ''price''
   \<and> get_param (searchParams_of other apiKey config (criteria\<lparr>c_sortBy := priceDesc\<rparr>)) ''sort_order'' =
     Some ''desc''
   \<and> get_param (searchParams_of other apiKey config (criteria\<lparr>c_sortBy := distance\<rparr>)) ''sort_by'' =
     Some ''distance''
   \<and> get_param (searchParams_of other apiKey config (criteria\<lparr>c_sortBy := distance\<rparr>)) ''sort_order'' =
     Some ''asc''
   \<and> get_param (searchParams_of other apiKey config (criteria\<lparr>c_sortBy := mileageAsc\<rparr>)) ''sort_by'' =
     Some ''miles''
   \<and> get_param (searchParams_of other apiKey config (criteria\<lparr>c_sortBy := mileageAsc\<rparr>)) ''sort_order'' =
     Some ''asc''"
  by (simp add: searchParams_simps)

subsection \<open>C6: the optional filters\<close>

text \<open>
  Claim C6, as the code has it. \<open>make\<close>, \<open>model\<close> and \<open>exterior_color\<close> are in the
  query exactly when the string of the criteria is present and not empty, and carry that
  string unchanged: \<open>searchVehicles\<close> does not trim. Trimming is done by the search
  form: a criteria string made by \<open>sanitizeText\<close> puts the filter in the query exactly
  when the text is not empty after trimming, with the trimmed text as its value.
\<close>

theorem searchParams_optional_filters:
  "get_param (searchParams_of other apiKey config criteria) ''make'' =
     (case c_make criteria of Some s \<Rightarrow> if s = [] then None else Some s | None \<Rightarrow> None)
   \<and> get_param (searchParams_of other apiKey config criteria) ''model'' =
     (case c_model criteria of Some s \<Rightarrow> if s = [] then None else Some s | None \<Rightarrow> None)
   \<and> get_param (searchParams_of other apiKey config criteria) ''exterior_color'' =
     (case c_color criteria of Some s \<Rightarrow> if s = [] then None else Some s | None \<Rightarrow> None)
   \<and> get_param (searchParams_of other apiKey config
        (criteria\<lparr>c_make := sanitizeText make_input\<rparr>)) ''make'' =
     (case make_input of
        Some t \<Rightarrow> if trim t = [] then None else Some (trim t) | None \<Rightarrow> None)
   \<and> get_param (searchParams_of other apiKey config
        (criteria\<lparr>c_model := sanitizeText model_input\<rparr>)) ''model'' =
     (case model_input of
        Some t \<Rightarrow> if trim t = [] then None else Some (trim t) | None \<Rightarrow> None)
   \<and> get_param (searchParams_of other apiKey config
        (criteria\<lparr>c_color := sanitizeText color_input\<rparr>)) ''exterior_color'' =
     (case color_input of
        Some t \<Rightarrow> if trim t = [] then None else Some (trim t) | None \<Rightarrow> None)"
  by (simp add: searchParams_make searchParams_model searchParams_exterior_color sanitizeText_eq
      split: option.split)

text \<open>
  Claim C6 as stated (for every criteria, the filter is there only if the string is
  non-empty after trimming) fails: a make of two spaces is sent.
\<close>

theorem searchParams_make_untrimmed:
  "trim ''  '' = []
   \<and> get_param (searchParams_of no_other_numbers ''key'' (appConfig example_env)
        (example_criteria\<lparr>c_make := Some ''  ''\<rparr>)) ''make'' = Some ''  ''"
  by (simp add: searchParams_make trim_def is_WhiteSpace_def)

subsection \<open>C7: the parameters that are always set\<close>

text \<open>
  Claim C7 says that \<open>rows\<close> is the configured page size clamped to \<open>[1, 50]\<close>,
  for every configuration. A \<open>VITE_RESULTS_PER_PAGE\<close> that does not start with a number
  (\<open>abc\<close>, or a variable set to nothing) parses to \<open>NaN\<close>, which \<open>Math.min\<close> and
  \<open>Math.max\<close> hand on, and the query asks for \<open>rows=NaN\<close>. The lemmas
  \<open>searchParams_always_set\<close>, \<open>searchParams_rows_Finite\<close>,
  \<open>searchParams_rows_default\<close> and \<open>searchParams_rows_capped\<close> above give the rest of
  the claim: the other six parameters, and the clamp when the page size is a number.
\<close>

theorem searchParams_rows_NaN:
  "get_param (searchParams_of other apiKey
     (appConfig (env\<lparr>VITE_RESULTS_PER_PAGE := Some ''abc''\<rparr>)) criteria) ''rows'' = Some ''NaN''
   \<and> get_param (searchParams_of other apiKey
     (appConfig (env\<lparr>VITE_RESULTS_PER_PAGE := Some []\<rparr>)) criteria) ''rows'' = Some ''NaN''"
  by (simp add: searchParams_rows appConfig_def parseInt_examples)

subsection \<open>C8: a response without listings\<close>

text \<open>
  Claim C8 says that every body without a \<open>listings\<close> array counts as zero results and
  raises nothing. The body \<open>null\<close> is JSON and has no \<open>listings\<close>, yet
  \<open>payload.listings\<close> throws a \<open>TypeError\<close> on it: \<open>Array.isArray\<close> guards the
  field and nothing guards the payload, where \<open>safeParseError\<close> tests \<open>body &&\<close> before
  it reads a property. A body that is not JSON makes \<open>response.json()\<close> throw in the same
  way, outside any \<open>try\<close>. The lemma \<open>searchVehicles_without_listings\<close> above gives
  the rest of the claim: every other parsed body without a \<open>listings\<close> array gives the
  empty list.
\<close>

theorem searchVehicles_null_body_raises:
  "searchVehicles (answering \<lparr>r_ok = True, r_statusText = ''OK'', r_json = Some JNull\<rparr>)
     example_env example_criteria = Inl TypeError
   \<and> searchVehicles (answering \<lparr>r_ok = True, r_statusText = ''OK'', r_json = None\<rparr>)
     example_env example_criteria = Inl SyntaxError"
  by (simp add: searchVehicles_def searchVehicles_request_example answering_def
      searchVehicles_response_def)

subsection \<open>C9: the random token is the only non-determinism\<close>

text \<open>
  Claim C9. Two runs of \<open>normalizeListing\<close> on one listing, with any two tokens of
  the random generator, agree on every field except possibly \<open>id\<close>; when the listing
  has an \<open>id\<close> or a \<open>vin\<close> they agree on \<open>id\<close> too.
\<close>

theorem normalizeListing_deterministic_except_id:
  "normalizeListing other r1 listing =
     (normalizeListing other r2 listing)\<lparr>v_id := v_id (normalizeListing other r1 listing)\<rparr>
   \<and> (l_id listing \<noteq> None \<or> l_vin listing \<noteq> None \<longrightarrow>
        normalizeListing other r1 listing = normalizeListing other r2 listing)"
proof
  show fields: "normalizeListing other r1 listing =
     (normalizeListing other r2 listing)\<lparr>v_id := v_id (normalizeListing other r1 listing)\<rparr>"
    by (simp add: normalizeListing_def Let_def)
  show "l_id listing \<noteq> None \<or> l_vin listing \<noteq> None \<longrightarrow>
        normalizeListing other r1 listing = normalizeListing other r2 listing"
  proof
    assume "l_id listing \<noteq> None \<or> l_vin listing \<noteq> None"
    then have "v_id (normalizeListing other r1 listing) = v_id (normalizeListing other r2 listing)"
      by (auto simp add: v_id_normalizeListing split: option.split)
    with fields have "normalizeListing other r1 listing =
        (normalizeListing other r2 listing)\<lparr>v_id := v_id (normalizeListing other r2 listing)\<rparr>"
      by simp
    then show "normalizeListing other r1 listing = normalizeListing other r2 listing"
      by simp
  qed
qed

text \<open>
  A listing with a VIN, normalised with two different tokens.
\<close>

theorem normalizeListing_deterministic_except_id_witness:
  "l_vin (empty_listing\<lparr>l_vin := Some ''1HGCM82633A004352''\<rparr>) \<noteq> None
   \<and> normalizeListing no_other_numbers ''k3j9x'' (empty_listing\<lparr>l_vin := Some ''1HGCM82633A004352''\<rparr>) =
     normalizeListing no_other_numbers ''p0q8w'' (empty_listing\<lparr>l_vin := Some ''1HGCM82633A004352''\<rparr>)"
  using normalizeListing_deterministic_except_id
    [of no_other_numbers "''k3j9x''" "empty_listing\<lparr>l_vin := Some ''1HGCM82633A004352''\<rparr>" "''p0q8w''"]
  by simp

subsection \<open>C10: where the identifier comes from\<close>

text \<open>
  Claim C10. An upstream \<open>id\<close> is the identifier of the listing as it is, also when
  it is the empty string; without it the \<open>vin\<close> is; the random token is used only when
  both are absent.
\<close>

theorem normalizeListing_id:
  "(l_id listing = Some i \<longrightarrow> v_id (normalizeListing other randomId listing) = i)
   \<and> (l_id listing = None \<and> l_vin listing = Some v \<longrightarrow>
        v_id (normalizeListing other randomId listing) = v)
   \<and> (l_id listing = None \<and> l_vin listing = None \<longrightarrow>
        v_id (normalizeListing other randomId listing) = randomId)
   \<and> v_id (normalizeListing other randomId (listing\<lparr>l_id := Some []\<rparr>)) = []"
  by (simp add: v_id_normalizeListing)

text \<open>
  An empty upstream \<open>id\<close> beside a VIN, a VIN alone, and neither.
\<close>

theorem normalizeListing_id_witness:
  "v_id (normalizeListing no_other_numbers ''k3j9x''
     (empty_listing\<lparr>l_id := Some [], l_vin := Some ''1HGCM82633A004352''\<rparr>)) = []
   \<and> v_id (normalizeListing no_other_numbers ''k3j9x''
     (empty_listing\<lparr>l_vin := Some ''1HGCM82633A004352''\<rparr>)) = ''1HGCM82633A004352''
   \<and> v_id (normalizeListing no_other_numbers ''k3j9x'' empty_listing) = ''k3j9x''"
  using
    normalizeListing_id [of "empty_listing\<lparr>l_id := Some [], l_vin := Some ''1HGCM82633A004352''\<rparr>"
      "[]" no_other_numbers "''k3j9x''"]
    normalizeListing_id [of "empty_listing\<lparr>l_vin := Some ''1HGCM82633A004352''\<rparr>"
      _ no_other_numbers "''k3j9x''" "''1HGCM82633A004352''"]
    normalizeListing_id [of empty_listing _ no_other_numbers "''k3j9x''"]
  by (simp add: empty_listing_def)

end
